theory Spec2Isabelle
  imports Main
begin

section \<open>JavaScript values\<close>

text \<open>
  The examples of \<^verbatim>\<open>reduxBestPractices.js\<close> work on plain data: Redux state and
  actions are records, arrays and primitive values. A number is kept as sign, mantissa
  and binary exponent; the examples never compute with one, they only test it for
  truth.
\<close>

datatype jsnum = NaN | Infinity bool | Finite bool nat int

datatype jsval =
    JUndefined
  | JNull
  | JBool bool
  | JNum jsnum
  | JStr string
  | JArr "jsval list"
  | JObj "(string \<times> jsval) list"

datatype js_error = TypeError | Thrown jsval

text \<open>\<^verbatim>\<open>ToBoolean\<close>: the values that count as false are \<^verbatim>\<open>undefined\<close>, \<^verbatim>\<open>null\<close>,
  \<^verbatim>\<open>false\<close>, \<^verbatim>\<open>+0\<close>, \<^verbatim>\<open>-0\<close>, \<^verbatim>\<open>NaN\<close> and the empty string.\<close>

fun truthy :: "jsval \<Rightarrow> bool" where
  "truthy JUndefined = False"
| "truthy JNull = False"
| "truthy (JBool b) = b"
| "truthy (JNum NaN) = False"
| "truthy (JNum (Infinity s)) = True"
| "truthy (JNum (Finite s m e)) = (m \<noteq> 0)"
| "truthy (JStr s) = (s \<noteq> [])"
| "truthy (JArr xs) = True"
| "truthy (JObj ps) = True"

text \<open>
  \<open>getprop v k\<close> is the member access \<^verbatim>\<open>v.k\<close> for the name \<open>k\<close> of a data property: a
  name that no built-in prototype supplies and that is not an array index, as
  \<^verbatim>\<open>todos\<close>, \<^verbatim>\<open>completed\<close>, \<^verbatim>\<open>id\<close>, \<^verbatim>\<open>type\<close> and \<^verbatim>\<open>payload\<close> are. Reading a
  property of \<^verbatim>\<open>undefined\<close> or \<^verbatim>\<open>null\<close> throws a TypeError; a record yields the
  property's value, or \<^verbatim>\<open>undefined\<close> when it has none; every other value has no such
  property.
\<close>

fun getprop :: "jsval \<Rightarrow> string \<Rightarrow> js_error + jsval" where
  "getprop JUndefined k = Inl TypeError"
| "getprop JNull k = Inl TypeError"
| "getprop (JObj ps) k = Inr (case map_of ps k of None \<Rightarrow> JUndefined | Some v \<Rightarrow> v)"
| "getprop v k = Inr JUndefined"

text \<open>The names of a record's own properties, in the order the literal gives them.\<close>

fun own_keys :: "jsval \<Rightarrow> string list" where
  "own_keys (JObj ps) = map fst ps"
| "own_keys v = []"

section \<open>The examples of the file\<close>

subsection \<open>State Structure (lines 20 to 29)\<close>

text \<open>
  \<^verbatim>\<open>
  {
    users: {
      byId: {
        '1': { id: '1', name: 'John' },
        '2': { id: '2', name: 'Jane' },
      },
      allIds: ['1', '2'],
    },
  }
  \<close>
\<close>

definition example_state :: jsval where
  "example_state =
     JObj [(''users'',
       JObj [(''byId'',
                JObj [(''1'', JObj [(''id'', JStr ''1''), (''name'', JStr ''John'')]),
                      (''2'', JObj [(''id'', JStr ''2''), (''name'', JStr ''Jane'')])]),
             (''allIds'', JArr [JStr ''1'', JStr ''2''])])]"

subsection \<open>Actions (lines 39 to 47)\<close>

text \<open>
  \<^verbatim>\<open>
  export const ADD_TODO = 'ADD_TODO';

  export const addTodo = (text) => ({
    type: ADD_TODO,
    payload: text,
  });
  \<close>
  The argument is whatever value the caller passes; nothing in \<^verbatim>\<open>addTodo\<close> looks at it.
\<close>

definition ADD_TODO :: string where
  "ADD_TODO = ''ADD_TODO''"

definition addTodo :: "jsval \<Rightarrow> jsval" where
  "addTodo text = JObj [(''type'', JStr ADD_TODO), (''payload'', text)]"

subsection \<open>Testing (lines 146 to 155)\<close>

text \<open>
  \<^verbatim>\<open>
  test('addTodo action creator', () => {
    const expectedAction = {
      type: ADD_TODO,
      payload: 'Learn Redux',
    };
    expect(addTodo('Learn Redux')).toEqual(expectedAction);
  });
  \<close>
  The test passes when the action made by \<^verbatim>\<open>addTodo\<close> and the expected action are
  equal as data.
\<close>

definition expectedAction :: jsval where
  "expectedAction = JObj [(''type'', JStr ADD_TODO), (''payload'', JStr ''Learn Redux'')]"

definition addTodo_test :: bool where
  "addTodo_test \<longleftrightarrow> addTodo (JStr ''Learn Redux'') = expectedAction"

subsection \<open>Middleware (lines 92 to 95)\<close>

text \<open>
  \<^verbatim>\<open>
  const logger = store => next => action => {
    console.log('Dispatching:', action);
    return next(action);
  };
  \<close>
  A call that has effects takes the world and gives back what it returned, or the error
  it threw, together with the world it left. The console is the part of the world that
  \<^verbatim>\<open>console.log\<close> writes to: one entry per call, holding the call's arguments.
\<close>

record world =
  console :: "jsval list list"

type_synonym ('r, 'w) eff = "'w \<Rightarrow> (js_error + 'r) \<times> 'w"

definition console_log :: "jsval list \<Rightarrow> 'a world_scheme \<Rightarrow> 'a world_scheme" where
  "console_log args w = w\<lparr>console := console w @ [args]\<rparr>"

definition logger ::
  "'s \<Rightarrow> (jsval \<Rightarrow> ('r, 'a world_scheme) eff) \<Rightarrow> jsval \<Rightarrow> ('r, 'a world_scheme) eff" where
  "logger store next action =
     (\<lambda>w. next action (console_log [JStr ''Dispatching:'', action] w))"

subsection \<open>Selectors (lines 126 to 134)\<close>

text \<open>
  \<^verbatim>\<open>
  import { createSelector } from 'reselect';

  const getTodos = (state) => state.todos;

  export const getVisibleTodos = createSelector(
    [getTodos],
    (todos) => todos.filter(todo => !todo.completed)
  );
  \<close>
\<close>

fun bind_js :: "js_error + 'a \<Rightarrow> ('a \<Rightarrow> js_error + 'b) \<Rightarrow> js_error + 'b" where
  "bind_js (Inl e) f = Inl e"
| "bind_js (Inr x) f = f x"

text \<open>Calling \<open>f\<close> on each element from left to right; the first error ends the run.\<close>

fun map_js :: "('a \<Rightarrow> js_error + 'b) \<Rightarrow> 'a list \<Rightarrow> js_error + 'b list" where
  "map_js f [] = Inr []"
| "map_js f (x # xs) = bind_js (f x) (\<lambda>y. bind_js (map_js f xs) (\<lambda>ys. Inr (y # ys)))"

text \<open>
  \<^verbatim>\<open>Array.prototype.filter\<close>: the callback runs on each element from left to right, and an
  element is kept when the callback's result counts as true. The result is a new array.
\<close>

fun filter_js :: "(jsval \<Rightarrow> js_error + jsval) \<Rightarrow> jsval list \<Rightarrow> js_error + jsval list" where
  "filter_js cb [] = Inr []"
| "filter_js cb (x # xs) =
     bind_js (cb x) (\<lambda>keep.
       bind_js (filter_js cb xs) (\<lambda>ys. Inr (if truthy keep then x # ys else ys)))"

text \<open>
  The method call \<^verbatim>\<open>v.filter(cb)\<close>. Only an array has the method among plain data:
  on \<^verbatim>\<open>undefined\<close> and \<^verbatim>\<open>null\<close> the member access throws, on every other value
  \<^verbatim>\<open>v.filter\<close> is not a function and the call throws; both are TypeErrors.
\<close>

fun call_filter :: "jsval \<Rightarrow> (jsval \<Rightarrow> js_error + jsval) \<Rightarrow> js_error + jsval" where
  "call_filter (JArr xs) cb = bind_js (filter_js cb xs) (\<lambda>ys. Inr (JArr ys))"
| "call_filter v cb = Inl TypeError"

text \<open>
  \<^verbatim>\<open>createSelector\<close> belongs to the reselect library: the selector it returns applies
  the input selectors to the state and hands their results to the result function. The
  library also caches the last result and answers from the cache when the same
  arguments come again; the cache is left out here, so this is the selector on a call
  that computes its result.
\<close>

definition createSelector ::
  "(jsval \<Rightarrow> js_error + jsval) list \<Rightarrow> (jsval list \<Rightarrow> js_error + jsval)
    \<Rightarrow> jsval \<Rightarrow> js_error + jsval" where
  "createSelector inputSelectors resultFunc state =
     bind_js (map_js (\<lambda>sel. sel state) inputSelectors) resultFunc"

text \<open>The first parameter of a function called with the arguments \<open>args\<close>.\<close>

fun first_arg :: "jsval list \<Rightarrow> jsval" where
  "first_arg [] = JUndefined"
| "first_arg (a # as) = a"

definition getTodos :: "jsval \<Rightarrow> js_error + jsval" where
  "getTodos state = getprop state ''todos''"

text \<open>The callback \<^verbatim>\<open>todo => !todo.completed\<close>.\<close>

definition not_completed :: "jsval \<Rightarrow> js_error + jsval" where
  "not_completed todo = bind_js (getprop todo ''completed'') (\<lambda>c. Inr (JBool (\<not> truthy c)))"

definition getVisibleTodos :: "jsval \<Rightarrow> js_error + jsval" where
  "getVisibleTodos =
     createSelector [getTodos] (\<lambda>args. call_filter (first_arg args) not_completed)"

subsection \<open>Reading a path, and the normalized shape\<close>

text \<open>The chain of member accesses \<^verbatim>\<open>v.k1.k2\<close>...\<close>

fun getpath :: "jsval \<Rightarrow> string list \<Rightarrow> js_error + jsval" where
  "getpath v [] = Inr v"
| "getpath v (k # ks) = bind_js (getprop v k) (\<lambda>u. getpath u ks)"

text \<open>
  The shape that the State Structure section describes, as a predicate on a table
  \<^verbatim>\<open>{ byId, allIds }\<close>: \<^verbatim>\<open>allIds\<close> is an array that lists the keys of \<^verbatim>\<open>byId\<close>, each
  once, and the record stored under a key carries that key in its \<^verbatim>\<open>id\<close> field.
\<close>

fun id_matches :: "jsval \<Rightarrow> jsval \<Rightarrow> bool" where
  "id_matches byId (JStr k) = (getpath byId [k, ''id''] = Inr (JStr k))"
| "id_matches byId v = False"

fun normalized_table :: "jsval \<Rightarrow> jsval \<Rightarrow> bool" where
  "normalized_table byId (JArr ids) =
     (distinct ids \<and> set ids = set (map JStr (own_keys byId)) \<and> list_all (id_matches byId) ids)"
| "normalized_table byId v = False"

definition normalized :: "jsval \<Rightarrow> bool" where
  "normalized table =
     (case (getprop table ''byId'', getprop table ''allIds'') of
        (Inr byId, Inr allIds) \<Rightarrow> normalized_table byId allIds
      | _ \<Rightarrow> False)"

text \<open>A table that breaks the shape: \<^verbatim>\<open>allIds\<close> names a user that \<^verbatim>\<open>byId\<close> does not hold.\<close>

definition inconsistent_users :: jsval where
  "inconsistent_users =
     JObj [(''byId'', JObj [(''1'', JObj [(''id'', JStr ''1''), (''name'', JStr ''John'')])]),
           (''allIds'', JArr [JStr ''1'', JStr ''3''])]"

subsection \<open>The selector over a store\<close>

text \<open>
  In JavaScript an array or a record is reached by reference, and a write to it shows
  to everyone who holds the reference. To say what the selector leaves unchanged, the
  same code is read here over a store: a value is a primitive or the address of a cell,
  a cell is an array or a record, and a new array is a new cell at the end of the store.
  An address outside the store belongs to no running program; it reads as a value
  without properties.
\<close>

datatype sval = SUndefined | SNull | SBool bool | SNum jsnum | SStr string | SRef nat

datatype cell = Array_cell "sval list" | Record_cell "(string \<times> sval) list"

type_synonym store = "cell list"

definition deref :: "store \<Rightarrow> nat \<Rightarrow> cell option" where
  "deref s a = (if a < length s then Some (s ! a) else None)"

fun truthy_store :: "sval \<Rightarrow> bool" where
  "truthy_store SUndefined = False"
| "truthy_store SNull = False"
| "truthy_store (SBool b) = b"
| "truthy_store (SNum NaN) = False"
| "truthy_store (SNum (Infinity sg)) = True"
| "truthy_store (SNum (Finite sg m e)) = (m \<noteq> 0)"
| "truthy_store (SStr t) = (t \<noteq> [])"
| "truthy_store (SRef a) = True"

fun getprop_store :: "store \<Rightarrow> sval \<Rightarrow> string \<Rightarrow> js_error + sval" where
  "getprop_store s SUndefined k = Inl TypeError"
| "getprop_store s SNull k = Inl TypeError"
| "getprop_store s (SRef a) k =
     Inr (case deref s a of
            Some (Record_cell ps) \<Rightarrow> (case map_of ps k of None \<Rightarrow> SUndefined | Some v \<Rightarrow> v)
          | _ \<Rightarrow> SUndefined)"
| "getprop_store s v k = Inr SUndefined"

fun filter_store :: "(sval \<Rightarrow> js_error + sval) \<Rightarrow> sval list \<Rightarrow> js_error + sval list" where
  "filter_store cb [] = Inr []"
| "filter_store cb (x # xs) =
     bind_js (cb x) (\<lambda>keep.
       bind_js (filter_store cb xs) (\<lambda>ys. Inr (if truthy_store keep then x # ys else ys)))"

text \<open>
  The method call \<^verbatim>\<open>v.filter(cb)\<close> for a callback that only reads the store, as the
  selector's does: the elements of the array are read from its cell, the kept ones go
  into a new cell, and the call returns the address of that cell. No existing cell is
  written.
\<close>

fun call_filter_store ::
  "sval \<Rightarrow> (store \<Rightarrow> sval \<Rightarrow> js_error + sval) \<Rightarrow> (sval, store) eff" where
  "call_filter_store (SRef a) cb s =
     (case deref s a of
        Some (Array_cell xs) \<Rightarrow>
          (case filter_store (cb s) xs of
             Inl e \<Rightarrow> (Inl e, s)
           | Inr ys \<Rightarrow> (Inr (SRef (length s)), s @ [Array_cell ys]))
      | _ \<Rightarrow> (Inl TypeError, s))"
| "call_filter_store v cb s = (Inl TypeError, s)"

text \<open>\<^verbatim>\<open>createSelector\<close> as above, without the cache; the input selectors only read.\<close>

definition createSelector_store ::
  "(store \<Rightarrow> sval \<Rightarrow> js_error + sval) list \<Rightarrow> (sval list \<Rightarrow> (sval, store) eff)
    \<Rightarrow> sval \<Rightarrow> (sval, store) eff" where
  "createSelector_store inputSelectors resultFunc state s =
     (case map_js (\<lambda>sel. sel s state) inputSelectors of
        Inl e \<Rightarrow> (Inl e, s)
      | Inr args \<Rightarrow> resultFunc args s)"

fun first_arg_store :: "sval list \<Rightarrow> sval" where
  "first_arg_store [] = SUndefined"
| "first_arg_store (a # as) = a"

definition getTodos_store :: "store \<Rightarrow> sval \<Rightarrow> js_error + sval" where
  "getTodos_store s state = getprop_store s state ''todos''"

definition not_completed_store :: "store \<Rightarrow> sval \<Rightarrow> js_error + sval" where
  "not_completed_store s todo =
     bind_js (getprop_store s todo ''completed'') (\<lambda>c. Inr (SBool (\<not> truthy_store c)))"

definition getVisibleTodos_store :: "sval \<Rightarrow> (sval, store) eff" where
  "getVisibleTodos_store =
     createSelector_store [getTodos_store]
       (\<lambda>args. call_filter_store (first_arg_store args) not_completed_store)"

text \<open>
  A store for trying the selector: cell 0 is the state, cell 1 its \<^verbatim>\<open>todos\<close> array, cells
  2 to 4 are the todos.
\<close>

definition todo_store :: store where
  "todo_store =
     [Record_cell [(''todos'', SRef 1)],
      Array_cell [SRef 2, SRef 3, SRef 4],
      Record_cell [(''text'', SStr ''a''), (''completed'', SBool False)],
      Record_cell [(''text'', SStr ''b''), (''completed'', SBool True)],
      Record_cell [(''text'', SStr ''c''), (''completed'', SBool False)]]"

section \<open>The file as a module\<close>

subsection \<open>The text\<close>

text \<open>The 163 lines of \<^verbatim>\<open>reduxBestPractices.js\<close>; the last one has no line end.\<close>

definition source :: "string list" where
  "source =
    [''// reduxBestPractices.js'',
     '''',
     ''/**'',
     '' * Redux Best Practices'',
     '' *'',
     '' * Introduction:'',
     '' * Redux is a state management library that helps manage application state'',
     '' * in a predictable way. This document outlines best practices for using'',
     '' * Redux in your applications to promote maintainability, scalability, and'',
     '' * ease of testing.'',
     '' */'',
     '''',
     ''/**'',
     '' * State Structure:'',
     '' * - Flat State Structure: Keep your state tree flat to avoid deep nesting.'',
     '' *   This simplifies access and updates.'',
     '' * - Normalization: Use normalized data structures to avoid redundancy.'',
     '' *   Store entities by ID and create lookup tables for related data.'',
     '' *'',
     '' * Example:'',
     '' * {'',
     '' *   users: {'',
     '' *     byId: {'',
     '' *       '1': { id: '1', name: 'John' },'',
     '' *       '2': { id: '2', name: 'Jane' },'',
     '' *     },'',
     '' *     allIds: ['1', '2'],'',
     '' *   },'',
     '' * }'',
     '' */'',
     '''',
     ''/**'',
     '' * Actions:'',
     '' * - Action Types: Define action types as constants to avoid typos and'',
     '' *   improve maintainability.'',
     '' * - Action Creators: Use action creators to encapsulate the creation of'',
     '' *   actions. This keeps your code DRY.'',
     '' *'',
     '' * Example:'',
     '' * // actionTypes.js'',
     '' * export const ADD_TODO = 'ADD_TODO';'',
     '' *'',
     '' * // actions.js'',
     '' * export const addTodo = (text) => ({'',
     '' *   type: ADD_TODO,'',
     '' *   payload: text,'',
     '' * });'',
     '' */'',
     '''',
     ''/**'',
     '' * Reducers:'',
     '' * - Pure Functions: Keep reducers as pure functions. They should not mutate'',
     '' *   the state directly.'',
     '' * - Combine Reducers: Use combineReducers to split the root reducer into'',
     '' *   smaller, manageable pieces.'',
     '' *'',
     '' * Example:'',
     '' * import { combineReducers } from 'redux';'',
     '' * import todosReducer from './todosReducer';'',
     '' * import usersReducer from './usersReducer';'',
     '' *'',
     '' * const rootReducer = combineReducers({'',
     '' *   todos: todosReducer,'',
     '' *   users: usersReducer,'',
     '' * });'',
     '' *'',
     '' * export default rootReducer;'',
     '' */'',
     '''',
     ''/**'',
     '' * Store:'',
     '' * - Single Store: Use a single Redux store for your application state to'',
     '' *   maintain a single source of truth.'',
     '' * - Enhancers: Use enhancers for middleware and store dev tools to improve'',
     '' *   development experience.'',
     '' *'',
     '' * Example:'',
     '' * import { createStore, applyMiddleware } from 'redux';'',
     '' * import rootReducer from './reducers';'',
     '' * import thunk from 'redux-thunk';'',
     '' *'',
     '' * const store = createStore(rootReducer, applyMiddleware(thunk));'',
     '' */'',
     '''',
     ''/**'',
     '' * Middleware:'',
     '' * - Use Middleware: Apply middleware like Redux Thunk or Redux Saga for'',
     '' *   handling asynchronous actions and side effects.'',
     '' * - Logging Middleware: Implement logging middleware to monitor actions'',
     '' *   and state changes during development.'',
     '' *'',
     '' * Example:'',
     '' * const logger = store => next => action => {'',
     '' *   console.log('Dispatching:', action);'',
     '' *   return next(action);'',
     '' * };'',
     '' */'',
     '''',
     ''/**'',
     '' * Connecting Components:'',
     '' * - Use connect: Utilize react-redux's connect function to connect your'',
     '' *   components to the Redux store.'',
     '' * - Map State and Dispatch: Use mapStateToProps and mapDispatchToProps'',
     '' *   for selecting state and dispatching actions.'',
     '' *'',
     '' * Example:'',
     '' * import { connect } from 'react-redux';'',
     '' * import { addTodo } from './actions';'',
     '' *'',
     '' * const mapStateToProps = (state) => ({'',
     '' *   todos: state.todos,'',
     '' * });'',
     '' *'',
     '' * const mapDispatchToProps = { addTodo };'',
     '' *'',
     '' * export default connect(mapStateToProps, mapDispatchToProps)(MyComponent);'',
     '' */'',
     '''',
     ''/**'',
     '' * Selectors:'',
     '' * - Create Selectors: Use selectors for accessing state. This encapsulates'',
     '' *   state access and improves testability.'',
     '' * - Reselect: Consider using the reselect library for memoized selectors'',
     '' *   to optimize performance.'',
     '' *'',
     '' * Example:'',
     '' * import { createSelector } from 'reselect';'',
     '' *'',
     '' * const getTodos = (state) => state.todos;'',
     '' *'',
     '' * export const getVisibleTodos = createSelector('',
     '' *   [getTodos],'',
     '' *   (todos) => todos.filter(todo => !todo.completed)'',
     '' * );'',
     '' */'',
     '''',
     ''/**'',
     '' * Testing:'',
     '' * - Test Reducers: Write tests for your reducers to ensure they return'',
     '' *   the correct state.'',
     '' * - Test Action Creators: Validate that action creators return the'',
     '' *   correct actions.'',
     '' * - Test Components: Use react-testing-library or enzyme for testing'',
     '' *   connected components.'',
     '' *'',
     '' * Example:'',
     '' * import { addTodo } from './actions';'',
     '' *'',
     '' * test('addTodo action creator', () => {'',
     '' *   const expectedAction = {'',
     '' *     type: ADD_TODO,'',
     '' *     payload: 'Learn Redux','',
     '' *   };'',
     '' *   expect(addTodo('Learn Redux')).toEqual(expectedAction);'',
     '' * });'',
     '' */'',
     '''',
     ''/**'',
     '' * Conclusion:'',
     '' * Following these best practices will help you create scalable and'',
     '' * maintainable applications with Redux. Consistently review and update'',
     '' * your practices as the Redux ecosystem evolves.'',
     '' */'']"

subsection \<open>Comments, white space and line ends\<close>

text \<open>
  Between two lines the scanner is either in code or inside a \<^verbatim>\<open>/* */\<close> comment; a
  \<^verbatim>\<open>//\<close> comment ends with its line. The text is ASCII: white space is tab, vertical
  tab, form feed and space.
\<close>

datatype mode = Code | Block_comment

definition is_whitespace :: "char \<Rightarrow> bool" where
  "is_whitespace c \<longleftrightarrow> c = CHR 0x09 \<or> c = CHR 0x0B \<or> c = CHR 0x0C \<or> c = CHR '' ''"

text \<open>
  \<open>skip_line m l\<close> reads the line \<open>l\<close> from the mode \<open>m\<close>, passing over comments and
  white space. It gives the mode at the end of the line, or \<open>None\<close> when it meets a
  character that starts a token.
\<close>

fun skip_line :: "mode \<Rightarrow> string \<Rightarrow> mode option" where
  "skip_line Block_comment (c # d # cs) =
     (if c = CHR ''*'' \<and> d = CHR ''/'' then skip_line Code cs
      else skip_line Block_comment (d # cs))"
| "skip_line Block_comment cs = Some Block_comment"
| "skip_line Code [] = Some Code"
| "skip_line Code (c # cs) =
     (if c = CHR ''/'' then
        (case cs of
           [] \<Rightarrow> None
         | d # ds \<Rightarrow>
             if d = CHR ''/'' then Some Code
             else if d = CHR ''*'' then skip_line Block_comment ds
             else None)
      else if is_whitespace c then skip_line Code cs
      else None)"

fun skip_lines :: "mode \<Rightarrow> string list \<Rightarrow> mode option" where
  "skip_lines m [] = Some m"
| "skip_lines m (l # ls) =
     (case skip_line m l of None \<Rightarrow> None | Some m' \<Rightarrow> skip_lines m' ls)"

text \<open>
  \<open>commented m l\<close>: every character of the line \<open>l\<close>, read from the mode \<open>m\<close>, belongs to
  a comment. A line lies inside a comment when that holds and the line is not an empty
  line between two comments.
\<close>

fun commented :: "mode \<Rightarrow> string \<Rightarrow> bool" where
  "commented Block_comment (c # d # cs) =
     (if c = CHR ''*'' \<and> d = CHR ''/'' then commented Code cs
      else commented Block_comment (d # cs))"
| "commented Block_comment cs = True"
| "commented Code [] = True"
| "commented Code (c # cs) =
     (c = CHR ''/'' \<and>
      (case cs of
         [] \<Rightarrow> False
       | d # ds \<Rightarrow> d = CHR ''/'' \<or> (d = CHR ''*'' \<and> commented Block_comment ds)))"

fun inside_comment :: "mode \<Rightarrow> string \<Rightarrow> bool" where
  "inside_comment Block_comment l = commented Block_comment l"
| "inside_comment Code [] = False"
| "inside_comment Code (c # cs) = commented Code (c # cs)"

text \<open>One flag per line: does the line lie inside a comment? \<open>None\<close> when a token is met.\<close>

fun comment_flags :: "mode \<Rightarrow> string list \<Rightarrow> bool list option" where
  "comment_flags m [] = Some []"
| "comment_flags m (l # ls) =
     (case skip_line m l of
        None \<Rightarrow> None
      | Some m' \<Rightarrow> map_option ((#) (inside_comment m l)) (comment_flags m' ls))"

text \<open>The documentation blocks: the runs of lines between empty lines.\<close>

function blocks :: "string list \<Rightarrow> string list list" where
  "blocks [] = []"
| "blocks (l # ls) =
     (if l = [] then blocks ls
      else (l # takeWhile (\<lambda>x. x \<noteq> []) ls) # blocks (dropWhile (\<lambda>x. x \<noteq> []) ls))"
  by pat_completeness auto
termination
  by (relation "measure length") (auto simp: length_dropWhile_le less_Suc_eq_le)

subsection \<open>The module of a text\<close>

text \<open>
  A module declares top-level names, exports some, and has a body of statements that
  run in order when the module is imported; a statement is a call with effects, and the
  first one that throws ends the run.
\<close>

record 'w js_module =
  declared :: "string list"
  exported :: "string list"
  body :: "(unit, 'w) eff list"

fun exec :: "(unit, 'w) eff list \<Rightarrow> (unit, 'w) eff" where
  "exec [] w = (Inr (), w)"
| "exec (s # ss) w = (case s w of (Inl e, w') \<Rightarrow> (Inl e, w') | (Inr u, w') \<Rightarrow> exec ss w')"

text \<open>
  A text that holds nothing but comments, white space and line ends has no statement,
  no declaration and no export. A text with a token in it, or one that ends inside a
  comment, is not a text this embedding reads.
\<close>

definition embed_module :: "string list \<Rightarrow> 'w js_module option" where
  "embed_module ls =
     (if skip_lines Code ls = Some Code
      then Some \<lparr>declared = [], exported = [], body = []\<rparr>
      else None)"

definition import_file :: "string list \<Rightarrow> 'w \<Rightarrow> ((js_error + unit) \<times> 'w) option" where
  "import_file ls w = map_option (\<lambda>m. exec (body m) w) (embed_module ls)"

text \<open>An application's world: the console and the state its store holds.\<close>

record app = world +
  store_state :: jsval

section \<open>Properties of the examples\<close>

text \<open>
  C5. For every string \<open>text\<close>, \<^verbatim>\<open>addTodo(text)\<close> is a record with exactly the two
  fields \<^verbatim>\<open>type\<close> and \<^verbatim>\<open>payload\<close>; the first holds the constant \<^verbatim>\<open>ADD_TODO\<close>, which is
  the string \<^verbatim>\<open>'ADD_TODO'\<close>, the second holds \<open>text\<close>. In particular the action for
  \<^verbatim>\<open>'Learn Redux'\<close> is the one the embedded test expects, so that test passes.
\<close>

theorem addTodo_action:
  "own_keys (addTodo (JStr text)) = [''type'', ''payload'']
   \<and> getprop (addTodo (JStr text)) ''type'' = Inr (JStr ''ADD_TODO'')
   \<and> getprop (addTodo (JStr text)) ''payload'' = Inr (JStr text)
   \<and> addTodo (JStr ''Learn Redux'')
       = JObj [(''type'', JStr ADD_TODO), (''payload'', JStr ''Learn Redux'')]
   \<and> addTodo_test"
  by (simp add: addTodo_def ADD_TODO_def addTodo_test_def expectedAction_def)


text \<open>
  C10. The example state of the State Structure section has the shape it illustrates:
  \<^verbatim>\<open>users.allIds\<close> is \<^verbatim>\<open>['1', '2']\<close>, the keys of \<^verbatim>\<open>users.byId\<close> are \<^verbatim>\<open>'1'\<close> and
  \<^verbatim>\<open>'2'\<close>, and the record under each of the two ids has that id in its \<^verbatim>\<open>id\<close> field.
\<close>

theorem example_state_normalized:
  "getpath example_state [''users'', ''allIds''] = Inr (JArr [JStr ''1'', JStr ''2''])
   \<and> map_sum id own_keys (getpath example_state [''users'', ''byId'']) = Inr [''1'', ''2'']
   \<and> getpath example_state [''users'', ''byId'', ''1'', ''id''] = Inr (JStr ''1'')
   \<and> getpath example_state [''users'', ''byId'', ''2'', ''id''] = Inr (JStr ''2'')
   \<and> map_sum id normalized (getpath example_state [''users'']) = Inr True"
  by (simp add: example_state_def normalized_def)

text \<open>
  C8. The logging middleware writes one entry to the console, the string
  \<^verbatim>\<open>'Dispatching:'\<close> and the action, and then is \<^verbatim>\<open>next(action)\<close>: it calls \<open>next\<close> with
  the action it was given and returns what \<open>next\<close> returns or throws what \<open>next\<close>
  throws. So when the outcome of \<open>next\<close> does not depend on the console, the outcome of
  \<^verbatim>\<open>logger(store)(next)(action)\<close> is that of \<^verbatim>\<open>next(action)\<close>.
\<close>

theorem logger_passes_action_on:
  "logger store next action w
     = next action (w\<lparr>console := console w @ [[JStr ''Dispatching:'', action]]\<rparr>)
   \<and> ((\<forall>c. fst (next action (w\<lparr>console := c\<rparr>)) = fst (next action w))
        \<longrightarrow> fst (logger store next action w) = fst (next action w))"
  by (simp add: logger_def console_log_def)

theorem logger_passes_action_on_witness:
  "(\<forall>c. fst ((\<lambda>a v. (Inr a, v)) (addTodo (JStr ''Learn Redux'')) (\<lparr>console = []\<rparr>\<lparr>console := c\<rparr>))
          = (fst ((\<lambda>a v. (Inr a, v)) (addTodo (JStr ''Learn Redux'')) \<lparr>console = []\<rparr>)
               :: js_error + jsval))
   \<and> logger () (\<lambda>a v. (Inr a, v)) (addTodo (JStr ''Learn Redux'')) \<lparr>console = []\<rparr>
       = ((Inr (addTodo (JStr ''Learn Redux'')) :: js_error + jsval),
          \<lparr>console = [[JStr ''Dispatching:'', addTodo (JStr ''Learn Redux'')]]\<rparr>)"
  using logger_passes_action_on
    [of "()" "\<lambda>a v. ((Inr a :: js_error + jsval), v)" "addTodo (JStr ''Learn Redux'')"
        "\<lparr>console = []\<rparr>"]
  by simp

text \<open>
  C6. The selector reads the state through \<^verbatim>\<open>state.todos\<close> only: two states whose
  \<^verbatim>\<open>todos\<close> fields are equal give the same result, whatever else they hold. (The cache
  of reselect is not part of the selector here.)
\<close>

theorem getVisibleTodos_reads_todos_only:
  "getTodos s1 = getTodos s2 \<Longrightarrow> getVisibleTodos s1 = getVisibleTodos s2"
  by (simp add: getVisibleTodos_def createSelector_def)

theorem getVisibleTodos_reads_todos_only_witness:
  "getTodos (JObj [(''todos'', JArr [JObj [(''text'', JStr ''a''), (''completed'', JBool False)]]),
                   (''users'', inconsistent_users)])
     = getTodos (JObj [(''filter'', JStr ''all''),
                       (''todos'', JArr [JObj [(''text'', JStr ''a''), (''completed'', JBool False)]])])
   \<and> getVisibleTodos
         (JObj [(''todos'', JArr [JObj [(''text'', JStr ''a''), (''completed'', JBool False)]]),
                (''users'', inconsistent_users)])
       = getVisibleTodos
           (JObj [(''filter'', JStr ''all''),
                  (''todos'', JArr [JObj [(''text'', JStr ''a''), (''completed'', JBool False)]])])"
proof -
  have h: "getTodos (JObj [(''todos'', JArr [JObj [(''text'', JStr ''a''), (''completed'', JBool False)]]),
                   (''users'', inconsistent_users)])
     = getTodos (JObj [(''filter'', JStr ''all''),
                       (''todos'', JArr [JObj [(''text'', JStr ''a''), (''completed'', JBool False)]])])"
    by (simp add: getTodos_def)
  from h getVisibleTodos_reads_todos_only [OF h] show ?thesis by simp
qed

lemma getprop_error: "getprop t k = Inl e \<longleftrightarrow> (t = JUndefined \<or> t = JNull) \<and> e = TypeError"
  by (cases t) auto

lemma filter_js_not_completed:
  "JUndefined \<notin> set todos \<Longrightarrow> JNull \<notin> set todos \<Longrightarrow>
   filter_js not_completed todos
     = Inr (filter (\<lambda>t. case getprop t ''completed'' of Inr c \<Rightarrow> \<not> truthy c | Inl e \<Rightarrow> False) todos)"
proof (induction todos)
  case Nil
  show ?case by simp
next
  case (Cons t ts)
  from Cons.prems have "t \<noteq> JUndefined" "t \<noteq> JNull" by auto
  then obtain c where c: "getprop t ''completed'' = Inr c"
    using getprop_error [of t "''completed''"] by (cases "getprop t ''completed''") auto
  from Cons show ?case by (simp add: not_completed_def c)
qed

lemma filter_boolean_completed:
  "\<forall>t\<in>set todos. \<exists>b. getprop t ''completed'' = Inr (JBool b) \<Longrightarrow>
   filter (\<lambda>t. case getprop t ''completed'' of Inr c \<Rightarrow> \<not> truthy c | Inl e \<Rightarrow> False) todos
     = filter (\<lambda>t. getprop t ''completed'' = Inr (JBool False)) todos"
  by (rule filter_cong) auto

lemma getprop_store_error:
  "getprop_store s t k = Inl e \<longleftrightarrow> (t = SUndefined \<or> t = SNull) \<and> e = TypeError"
  by (cases t) auto

lemma filter_store_not_completed:
  "SUndefined \<notin> set ts \<Longrightarrow> SNull \<notin> set ts \<Longrightarrow>
   filter_store (not_completed_store s) ts
     = Inr (filter (\<lambda>t. case getprop_store s t ''completed'' of
                           Inr c \<Rightarrow> \<not> truthy_store c | Inl e \<Rightarrow> False) ts)"
proof (induction ts)
  case Nil
  show ?case by simp
next
  case (Cons t ts)
  from Cons.prems have "t \<noteq> SUndefined" "t \<noteq> SNull" by auto
  then obtain c where c: "getprop_store s t ''completed'' = Inr c"
    using getprop_store_error [of s t "''completed''"]
    by (cases "getprop_store s t ''completed''") auto
  from Cons show ?case by (simp add: not_completed_store_def c)
qed

lemma getprop_store_grows:
  "getprop_store s v k = Inr (SRef a) \<Longrightarrow> getprop_store (s @ cs) v k = Inr (SRef a)"
  by (cases v) (auto simp: deref_def nth_append split: if_splits option.splits cell.splits)

lemma getVisibleTodos_store_run:
  assumes "getTodos_store s st = Inr (SRef a)" and "deref s a = Some (Array_cell ts)"
    and "SUndefined \<notin> set ts" and "SNull \<notin> set ts"
  shows "getVisibleTodos_store st s
           = (Inr (SRef (length s)),
              s @ [Array_cell (filter (\<lambda>t. case getprop_store s t ''completed'' of
                                 Inr c \<Rightarrow> \<not> truthy_store c | Inl e \<Rightarrow> False) ts)])"
  using assms
  by (simp add: getVisibleTodos_store_def createSelector_store_def
        filter_store_not_completed)

text \<open>
  C9, at a todo without a \<^verbatim>\<open>completed\<close> field: the selector returns it, and its
  \<^verbatim>\<open>completed\<close> field is \<^verbatim>\<open>undefined\<close>, not \<^verbatim>\<open>false\<close>.
\<close>

theorem getVisibleTodos_keeps_todo_without_completed:
  "getVisibleTodos (JObj [(''todos'', JArr [JObj [(''text'', JStr ''Learn Redux'')]])])
     = Inr (JArr [JObj [(''text'', JStr ''Learn Redux'')]])
   \<and> getprop (JObj [(''text'', JStr ''Learn Redux'')]) ''completed'' = Inr JUndefined
   \<and> getprop (JObj [(''text'', JStr ''Learn Redux'')]) ''completed'' \<noteq> Inr (JBool False)"
  by (simp add: getVisibleTodos_def createSelector_def getTodos_def not_completed_def)

text \<open>
  C9, amended. The cache of reselect left aside, as in C6: when \<^verbatim>\<open>state.todos\<close> is an
  array that holds no \<^verbatim>\<open>undefined\<close> and no \<^verbatim>\<open>null\<close>, \<^verbatim>\<open>getVisibleTodos(state)\<close> returns
  exactly the elements of \<^verbatim>\<open>state.todos\<close> whose \<^verbatim>\<open>completed\<close> field does not count as
  true (it is \<^verbatim>\<open>false\<close>, missing, \<^verbatim>\<open>null\<close>, zero, \<^verbatim>\<open>NaN\<close> or the empty string), in
  their original order; when every \<^verbatim>\<open>completed\<close> field is a boolean, these are the
  elements whose \<^verbatim>\<open>completed\<close> field is \<^verbatim>\<open>false\<close>. The call leaves \<^verbatim>\<open>state.todos\<close>
  itself unchanged: over a store, the result is a new array, \<^verbatim>\<open>state.todos\<close> is the
  same array with the same elements after the call, and so is every cell the store had.
\<close>

theorem getVisibleTodos_filters:
  assumes "getTodos state = Inr (JArr todos)"
    and "JUndefined \<notin> set todos" and "JNull \<notin> set todos"
  shows "getVisibleTodos state
           = Inr (JArr (filter
               (\<lambda>t. case getprop t ''completed'' of Inr c \<Rightarrow> \<not> truthy c | Inl e \<Rightarrow> False) todos))
         \<and> ((\<forall>t\<in>set todos. \<exists>b. getprop t ''completed'' = Inr (JBool b))
              \<longrightarrow> getVisibleTodos state
                    = Inr (JArr (filter (\<lambda>t. getprop t ''completed'' = Inr (JBool False)) todos)))
         \<and> (getTodos_store s st = Inr (SRef a) \<and> deref s a = Some (Array_cell ts)
              \<and> SUndefined \<notin> set ts \<and> SNull \<notin> set ts
              \<longrightarrow> getVisibleTodos_store st s
                    = (Inr (SRef (length s)),
                       s @ [Array_cell (filter
                              (\<lambda>t. case getprop_store s t ''completed'' of
                                      Inr c \<Rightarrow> \<not> truthy_store c | Inl e \<Rightarrow> False) ts)])
                  \<and> a \<noteq> length s
                  \<and> take (length s) (snd (getVisibleTodos_store st s)) = s
                  \<and> deref (snd (getVisibleTodos_store st s)) a = Some (Array_cell ts)
                  \<and> getTodos_store (snd (getVisibleTodos_store st s)) st = Inr (SRef a))"
proof -
  have run: "getVisibleTodos state = bind_js (filter_js not_completed todos) (\<lambda>ys. Inr (JArr ys))"
    using assms(1) by (simp add: getVisibleTodos_def createSelector_def)
  have first: "getVisibleTodos state
           = Inr (JArr (filter
               (\<lambda>t. case getprop t ''completed'' of Inr c \<Rightarrow> \<not> truthy c | Inl e \<Rightarrow> False) todos))"
    by (simp add: run filter_js_not_completed [OF assms(2) assms(3)])
  have second: "(\<forall>t\<in>set todos. \<exists>b. getprop t ''completed'' = Inr (JBool b))
              \<longrightarrow> getVisibleTodos state
                    = Inr (JArr (filter (\<lambda>t. getprop t ''completed'' = Inr (JBool False)) todos))"
    using first filter_boolean_completed [of todos] by simp
  have third: "getVisibleTodos_store st s
                    = (Inr (SRef (length s)),
                       s @ [Array_cell (filter
                              (\<lambda>t. case getprop_store s t ''completed'' of
                                      Inr c \<Rightarrow> \<not> truthy_store c | Inl e \<Rightarrow> False) ts)])
                  \<and> a \<noteq> length s
                  \<and> take (length s) (snd (getVisibleTodos_store st s)) = s
                  \<and> deref (snd (getVisibleTodos_store st s)) a = Some (Array_cell ts)
                  \<and> getTodos_store (snd (getVisibleTodos_store st s)) st = Inr (SRef a)"
    if h: "getTodos_store s st = Inr (SRef a)" "deref s a = Some (Array_cell ts)"
          "SUndefined \<notin> set ts" "SNull \<notin> set ts"
  proof -
    note r = getVisibleTodos_store_run [OF h]
    from h(2) have less: "a < length s" and at: "s ! a = Array_cell ts"
      by (auto simp: deref_def split: if_splits)
    have "deref (snd (getVisibleTodos_store st s)) a = Some (Array_cell ts)"
      using less at by (simp add: r deref_def nth_append)
    moreover have "getTodos_store (snd (getVisibleTodos_store st s)) st = Inr (SRef a)"
      using h(1) by (simp add: r getTodos_store_def getprop_store_grows)
    ultimately show ?thesis using less by (simp add: r)
  qed
  from first second third show ?thesis by blast
qed

theorem getVisibleTodos_filters_witness:
  "getTodos (JObj [(''todos'',
       JArr [JObj [(''text'', JStr ''a''), (''completed'', JBool False)],
             JObj [(''text'', JStr ''b''), (''completed'', JBool True)],
             JObj [(''text'', JStr ''c''), (''completed'', JBool False)]])])
     = Inr (JArr [JObj [(''text'', JStr ''a''), (''completed'', JBool False)],
                  JObj [(''text'', JStr ''b''), (''completed'', JBool True)],
                  JObj [(''text'', JStr ''c''), (''completed'', JBool False)]])
   \<and> getVisibleTodos (JObj [(''todos'',
       JArr [JObj [(''text'', JStr ''a''), (''completed'', JBool False)],
             JObj [(''text'', JStr ''b''), (''completed'', JBool True)],
             JObj [(''text'', JStr ''c''), (''completed'', JBool False)]])])
     = Inr (JArr [JObj [(''text'', JStr ''a''), (''completed'', JBool False)],
                  JObj [(''text'', JStr ''c''), (''completed'', JBool False)]])
   \<and> getTodos_store todo_store (SRef 0) = Inr (SRef 1)
   \<and> deref todo_store 1 = Some (Array_cell [SRef 2, SRef 3, SRef 4])
   \<and> getVisibleTodos_store (SRef 0) todo_store
       = (Inr (SRef 5), todo_store @ [Array_cell [SRef 2, SRef 4]])
   \<and> deref (snd (getVisibleTodos_store (SRef 0) todo_store)) 1
       = Some (Array_cell [SRef 2, SRef 3, SRef 4])"
proof -
  let ?todos = "[JObj [(''text'', JStr ''a''), (''completed'', JBool False)],
                 JObj [(''text'', JStr ''b''), (''completed'', JBool True)],
                 JObj [(''text'', JStr ''c''), (''completed'', JBool False)]]"
  have h1: "getTodos (JObj [(''todos'', JArr ?todos)]) = Inr (JArr ?todos)"
    by (simp add: getTodos_def)
  have h2: "JUndefined \<notin> set ?todos" by simp
  have h3: "JNull \<notin> set ?todos" by simp
  have h4: "\<forall>t\<in>set ?todos. \<exists>b. getprop t ''completed'' = Inr (JBool b)" by auto
  have s1: "getTodos_store todo_store (SRef 0) = Inr (SRef 1)"
    by (simp add: getTodos_store_def todo_store_def deref_def)
  have s2: "deref todo_store 1 = Some (Array_cell [SRef 2, SRef 3, SRef 4])"
    by (simp add: todo_store_def deref_def)
  have s3: "SUndefined \<notin> set [SRef 2, SRef 3, SRef 4]" by simp
  have s4: "SNull \<notin> set [SRef 2, SRef 3, SRef 4]" by simp
  have len: "length todo_store = 5" by (simp add: todo_store_def)
  have keep: "filter (\<lambda>t. case getprop_store todo_store t ''completed'' of
                            Inr c \<Rightarrow> \<not> truthy_store c | Inl e \<Rightarrow> False) [SRef 2, SRef 3, SRef 4]
                = [SRef 2, SRef 4]"
    by (simp add: todo_store_def deref_def)
  note all = getVisibleTodos_filters
    [OF h1 h2 h3, of todo_store "SRef 0" 1 "[SRef 2, SRef 3, SRef 4]", unfolded keep len]
  from all h4 have pure: "getVisibleTodos (JObj [(''todos'', JArr ?todos)])
      = Inr (JArr (filter (\<lambda>t. getprop t ''completed'' = Inr (JBool False)) ?todos))"
    by blast
  from all s1 s2 s3 s4 have run: "getVisibleTodos_store (SRef 0) todo_store
      = (Inr (SRef 5), todo_store @ [Array_cell [SRef 2, SRef 4]])"
    and kept: "deref (snd (getVisibleTodos_store (SRef 0) todo_store)) 1
      = Some (Array_cell [SRef 2, SRef 3, SRef 4])"
    by blast+
  from h1 s1 s2 run kept show ?thesis by (simp add: pure)
qed

section \<open>Properties of the module\<close>

lemma source_token_free: "skip_lines Code source = Some Code"
  by code_simp

lemma source_comment_flags: "comment_flags Code source = Some (map (\<lambda>l. l \<noteq> []) source)"
  by code_simp

lemma source_size: "length source = 163 \<and> length (filter (\<lambda>l. l = []) source) = 10"
  by code_simp

lemma blocks_token_free: "map (skip_lines Code) (blocks source) = replicate 11 (Some Code)"
  by code_simp

lemma embed_source:
  "embed_module source = Some \<lparr>declared = [], exported = [], body = []\<rparr>"
  by (simp add: embed_module_def source_token_free)

lemma import_file_eq:
  "import_file ls w = (if skip_lines Code ls = Some Code then Some (Inr (), w) else None)"
  by (simp add: import_file_def embed_module_def)

lemma import_source: "import_file source w = Some (Inr (), w)"
  by (simp add: import_file_eq source_token_free)

lemma import_blocks:
  "map (\<lambda>b. import_file b w) (blocks source) = replicate 11 (Some (Inr (), w))"
proof -
  have "map (\<lambda>b. import_file b w) (blocks source)
          = map (\<lambda>r. if r = Some Code then Some (Inr (), w) else None)
              (map (skip_lines Code) (blocks source))"
    by (simp add: import_file_eq comp_def)
  then show ?thesis by (simp add: blocks_token_free)
qed

text \<open>
  C1, at line 2: the first line is a comment, the second is an empty line that follows
  it, inside no comment. So not every line of the file lies inside a comment.
\<close>

theorem blank_line_outside_comment:
  "take 2 source = [''// reduxBestPractices.js'', []]
   \<and> comment_flags Code (take 2 source) = Some [True, False]
   \<and> comment_flags Code source \<noteq> Some (replicate (length source) True)"
  by code_simp

text \<open>
  C1, amended. The file holds no executable logic: of its 163 lines, the 153 that are
  not empty lie inside a comment each, and the other 10 are empty lines between two
  comments. The text has no token, so the module declares no top-level name, exports
  nothing and has an empty body.
\<close>

theorem source_is_comments_only:
  "comment_flags Code source = Some (map (\<lambda>l. l \<noteq> []) source)
   \<and> length source = 163
   \<and> length (filter (\<lambda>l. l = []) source) = 10
   \<and> skip_lines Code source = Some Code
   \<and> embed_module source = Some \<lparr>declared = [], exported = [], body = []\<rparr>"
  by (simp add: source_comment_flags source_size source_token_free embed_source)

text \<open>
  C3. Importing the file runs no statement and has no effect: the import returns
  normally and the world after it is the world before it, the console included. Each
  documentation block taken alone is as inert as the whole file.
\<close>

theorem import_has_no_effect:
  "import_file source w = Some (Inr (), w)
   \<and> map_option body (embed_module source :: 'w js_module option) = Some []
   \<and> map_option (\<lambda>r. console (snd r)) (import_file source v) = Some (console v)
   \<and> map (\<lambda>b. import_file b w) (blocks source) = replicate 11 (Some (Inr (), w))"
  by (simp add: import_source embed_source import_blocks)

text \<open>
  C4. Importing the file never throws: for every world the import returns normally.
  The module has no statement that could raise, catch or pass on an error, and it
  declares and exports no function that a caller could run.
\<close>

theorem import_never_throws:
  "map_option fst (import_file source w) = Some (Inr ())
   \<and> (\<forall>e w'. import_file source w \<noteq> Some (Inl e, w'))
   \<and> map_option body (embed_module source :: 'w js_module option) = Some []
   \<and> map_option declared (embed_module source :: 'w js_module option) = Some []
   \<and> map_option exported (embed_module source :: 'w js_module option) = Some []"
  by (simp add: import_source embed_source)

text \<open>
  C7. The module defines and enforces no invariant on a state: it declares and exports
  no operation, and importing it accepts every state and leaves it as it is. That holds
  for a state whose \<^verbatim>\<open>users\<close> table breaks the normalized shape, too: nothing in the
  file checks the shape.
\<close>

theorem no_invariant_enforced:
  "map_option declared (embed_module source :: app js_module option) = Some []
   \<and> map_option exported (embed_module source :: app js_module option) = Some []
   \<and> import_file source \<lparr>console = out, store_state = s\<rparr>
       = Some (Inr (), \<lparr>console = out, store_state = s\<rparr>)
   \<and> \<not> normalized inconsistent_users
   \<and> import_file source \<lparr>console = out, store_state = JObj [(''users'', inconsistent_users)]\<rparr>
       = Some (Inr (), \<lparr>console = out, store_state = JObj [(''users'', inconsistent_users)]\<rparr>)"
  by (simp add: import_source embed_source normalized_def inconsistent_users_def)

end
